theory Spec2Isabelle
  imports Main "HOL-Library.AList"
begin

section \<open>The dlt bridge of dagster-open-platform\<close>

text \<open>
  A shallow embedding of \<^verbatim>\<open>dagster_open_platform/resources/dlt_resource.py\<close>:
  the key translator \<^verbatim>\<open>DltDagsterTranslator\<close>, the metadata normaliser
  \<^verbatim>\<open>_cast_load_info_metadata\<close>, the per-resource extraction
  \<^verbatim>\<open>extract_resource_metadata\<close> and the generator \<^verbatim>\<open>DltDagsterResource.run\<close>.
\<close>

subsection \<open>Python values\<close>

text \<open>
  The values found in \<^verbatim>\<open>load_info.asdict()\<close>. A dict is an association list in
  insertion order with string keys (the keys of dlt's report), a pendulum
  \<^verbatim>\<open>DateTime\<close> or \<^verbatim>\<open>Timezone\<close> is represented by the text \<^verbatim>\<open>str(value)\<close>
  renders for it, which is all the code observes of it, and \<open>VOpaque\<close> stands for an
  object of any other class.
\<close>

datatype val =
    VNone
  | VBool bool
  | VInt int
  | VStr string
  | VDateTime string
  | VTimezone string
  | VOpaque string
  | VTuple "val list"
  | VList "val list"
  | VDict "(string \<times> val) list"

datatype error =
    ConfigurationError
  | StopIteration
  | TypeError
  | AttributeError
  | PipelineExecutionFailure string

type_synonym py_dict = "(string \<times> val) list"

subsection \<open>Resources and asset keys\<close>

text \<open>The fields of a \<^verbatim>\<open>DltResource\<close> that the module reads.\<close>

record dlt_resource =
  source_name :: string
  name :: string
  table_name :: string

text \<open>An \<^verbatim>\<open>AssetKey\<close> is its path; \<^verbatim>\<open>AssetKey(s)\<close> of a string has the one segment \<open>s\<close>.\<close>

type_synonym asset_key = "string list"

definition AssetKey :: "string \<Rightarrow> asset_key" where
  "AssetKey s = [s]"

definition META_KEY_SOURCE :: string where
  "META_KEY_SOURCE = ''dagster_dlt/source''"

definition META_KEY_PIPELINE :: string where
  "META_KEY_PIPELINE = ''dagster_dlt/pipeline''"

definition get_asset_key :: "dlt_resource \<Rightarrow> asset_key" where
  "get_asset_key resource = AssetKey (''dlt_'' @ source_name resource @ ''_'' @ name resource)"

definition get_deps_asset_keys :: "dlt_resource \<Rightarrow> asset_key list" where
  "get_deps_asset_keys resource = [AssetKey (source_name resource @ ''_'' @ name resource)]"

subsection \<open>Normalisation of the run report\<close>

text \<open>\<^verbatim>\<open>_recursive_cast\<close>: the four branches of the \<^verbatim>\<open>isinstance\<close> chain, in order.\<close>

primrec recursive_cast :: "val \<Rightarrow> val" where
  "recursive_cast (VDict kvs) = VDict (map (map_prod id recursive_cast) kvs)"
| "recursive_cast (VList xs) = VList (map recursive_cast xs)"
| "recursive_cast (VDateTime s) = VStr s"
| "recursive_cast (VTimezone s) = VStr s"
| "recursive_cast VNone = VNone"
| "recursive_cast (VBool b) = VBool b"
| "recursive_cast (VInt i) = VInt i"
| "recursive_cast (VStr s) = VStr s"
| "recursive_cast (VOpaque s) = VOpaque s"
| "recursive_cast (VTuple xs) = VTuple xs"

definition cast_load_info_metadata :: "py_dict \<Rightarrow> py_dict" where
  "cast_load_info_metadata mapping = map (\<lambda>(k, v). (k, recursive_cast v)) mapping"

text \<open>The kinds of value the \<^verbatim>\<open>isinstance\<close> tests tell apart.\<close>

fun is_dict :: "val \<Rightarrow> bool" where
  "is_dict (VDict kvs) = True"
| "is_dict v = False"

fun is_list :: "val \<Rightarrow> bool" where
  "is_list (VList xs) = True"
| "is_list v = False"

fun is_rich :: "val \<Rightarrow> bool" where
  "is_rich (VDateTime s) = True"
| "is_rich (VTimezone s) = True"
| "is_rich v = False"

text \<open>A value with no pendulum object anywhere inside it.\<close>

fun no_rich_values :: "val \<Rightarrow> bool" where
  "no_rich_values (VDateTime s) = False"
| "no_rich_values (VTimezone s) = False"
| "no_rich_values (VTuple xs) = list_all no_rich_values xs"
| "no_rich_values (VList xs) = list_all no_rich_values xs"
| "no_rich_values (VDict kvs) = list_all (\<lambda>kv. no_rich_values (snd kv)) kvs"
| "no_rich_values v = True"

subsection \<open>Extraction of one resource's metadata\<close>

text \<open>
  Iterating a value in a comprehension: lists and tuples give their items, a dict its
  keys, a string its characters, anything else raises \<^verbatim>\<open>TypeError\<close>.
\<close>

fun iter_val :: "val \<Rightarrow> error + val list" where
  "iter_val (VList xs) = Inr xs"
| "iter_val (VTuple xs) = Inr xs"
| "iter_val (VDict kvs) = Inr (map (\<lambda>kv. VStr (fst kv)) kvs)"
| "iter_val (VStr s) = Inr (map (\<lambda>c. VStr [c]) s)"
| "iter_val v = Inl TypeError"

text \<open>\<^verbatim>\<open>d.get(k, default)\<close>; only a dict has the method.\<close>

definition dict_get :: "py_dict \<Rightarrow> string \<Rightarrow> val \<Rightarrow> val" where
  "dict_get d k dflt = (case map_of d k of None \<Rightarrow> dflt | Some v \<Rightarrow> v)"

fun val_get :: "val \<Rightarrow> string \<Rightarrow> val \<Rightarrow> error + val" where
  "val_get (VDict kvs) k dflt = Inr (dict_get kvs k dflt)"
| "val_get v k dflt = Inl AttributeError"

text \<open>The inner loop \<^verbatim>\<open>for job in load_package.get("jobs", []) if ...\<close>.\<close>

fun select_jobs :: "string \<Rightarrow> val list \<Rightarrow> error + val list" where
  "select_jobs t [] = Inr []"
| "select_jobs t (job # js) =
     (case val_get job ''table_name'' VNone of
        Inl e \<Rightarrow> Inl e
      | Inr tn \<Rightarrow>
          (case select_jobs t js of
             Inl e \<Rightarrow> Inl e
           | Inr rest \<Rightarrow> Inr (if tn = VStr t then job # rest else rest)))"

text \<open>The outer loop \<^verbatim>\<open>for load_package in load_info_dict.get("load_packages", [])\<close>.\<close>

fun collect_jobs :: "string \<Rightarrow> val list \<Rightarrow> error + val list" where
  "collect_jobs t [] = Inr []"
| "collect_jobs t (load_package # lps) =
     (case val_get load_package ''jobs'' (VList []) of
        Inl e \<Rightarrow> Inl e
      | Inr jv \<Rightarrow>
          (case iter_val jv of
             Inl e \<Rightarrow> Inl e
           | Inr js \<Rightarrow>
               (case select_jobs t js of
                  Inl e \<Rightarrow> Inl e
                | Inr sel \<Rightarrow>
                    (case collect_jobs t lps of
                       Inl e \<Rightarrow> Inl e
                     | Inr rest \<Rightarrow> Inr (sel @ rest)))))"

definition dlt_base_metadata_types :: "string list" where
  "dlt_base_metadata_types =
     [''first_run'', ''started_at'', ''finished_at'', ''dataset_name'',
      ''destination_name'', ''destination_type'']"

text \<open>A \<^verbatim>\<open>LoadInfo\<close> is represented by its \<^verbatim>\<open>asdict()\<close>.\<close>

type_synonym load_info = py_dict

definition extract_resource_metadata :: "dlt_resource \<Rightarrow> load_info \<Rightarrow> error + py_dict" where
  "extract_resource_metadata resource load_info =
     (let load_info_dict = cast_load_info_metadata load_info;
          base_metadata = filter (\<lambda>(k, v). k \<in> set dlt_base_metadata_types) load_info_dict
      in case iter_val (dict_get load_info_dict ''load_packages'' (VList [])) of
           Inl e \<Rightarrow> Inl e
         | Inr load_packages \<Rightarrow>
             (case collect_jobs (table_name resource) load_packages of
                Inl e \<Rightarrow> Inl e
              | Inr jobs \<Rightarrow> Inr (AList.update ''jobs'' (VList jobs) base_metadata)))"

text \<open>
  The shape dlt gives a report: \<^verbatim>\<open>load_packages\<close>, when present, is a list of dicts,
  the \<^verbatim>\<open>jobs\<close> of each, when present, a list of dicts, and the \<^verbatim>\<open>table_name\<close> of a
  job, when present, is not a pendulum object.
\<close>

definition wf_job :: "val \<Rightarrow> bool" where
  "wf_job job = (case job of
       VDict kvs \<Rightarrow> (case map_of kvs ''table_name'' of None \<Rightarrow> True | Some tn \<Rightarrow> \<not> is_rich tn)
     | _ \<Rightarrow> False)"

definition wf_load_package :: "val \<Rightarrow> bool" where
  "wf_load_package lp = (case lp of
       VDict kvs \<Rightarrow> (case map_of kvs ''jobs'' of
                      None \<Rightarrow> True
                    | Some (VList js) \<Rightarrow> list_all wf_job js
                    | Some _ \<Rightarrow> False)
     | _ \<Rightarrow> False)"

definition wf_load_info :: "load_info \<Rightarrow> bool" where
  "wf_load_info li = (case map_of li ''load_packages'' of
       None \<Rightarrow> True
     | Some (VList lps) \<Rightarrow> list_all wf_load_package lps
     | Some _ \<Rightarrow> False)"

text \<open>The job records of a report, package after package, in sequence order.\<close>

definition package_jobs :: "val \<Rightarrow> val list" where
  "package_jobs lp = (case lp of
       VDict kvs \<Rightarrow> (case map_of kvs ''jobs'' of Some (VList js) \<Rightarrow> js | _ \<Rightarrow> [])
     | _ \<Rightarrow> [])"

definition report_jobs :: "load_info \<Rightarrow> val list" where
  "report_jobs li = (case map_of li ''load_packages'' of
       Some (VList lps) \<Rightarrow> concat (map package_jobs lps)
     | _ \<Rightarrow> [])"

definition job_table :: "val \<Rightarrow> val option" where
  "job_table job = (case job of VDict kvs \<Rightarrow> map_of kvs ''table_name'' | _ \<Rightarrow> None)"

subsection \<open>The run\<close>

text \<open>
  A \<^verbatim>\<open>DltSource\<close> is the ordered collection \<^verbatim>\<open>resources.values()\<close>;
  \<^verbatim>\<open>with_resources\<close> of the dlt library gives the source restricted to the named
  resources. A \<^verbatim>\<open>Pipeline\<close> is what its \<^verbatim>\<open>run\<close> does: given the source and the
  keyword arguments it returns a report or raises an exception of its own (\<open>Inl\<close>, with
  its message), which \<^verbatim>\<open>DltDagsterResource.run\<close> lets through as
  \<open>PipelineExecutionFailure\<close>.
\<close>

record dlt_source =
  resources :: "dlt_resource list"

definition with_resources :: "string list \<Rightarrow> dlt_source \<Rightarrow> dlt_source" where
  "with_resources names src = src\<lparr>resources := filter (\<lambda>r. name r \<in> set names) (resources src)\<rparr>"

type_synonym pipeline = "dlt_source \<Rightarrow> py_dict \<Rightarrow> string + load_info"

text \<open>
  The metadata of one asset, with the two entries \<^verbatim>\<open>run\<close> looks up under
  \<^verbatim>\<open>META_KEY_SOURCE\<close> and \<^verbatim>\<open>META_KEY_PIPELINE\<close>; \<open>None\<close> is an absent key.
\<close>

record asset_metadata =
  meta_source :: "dlt_source option"
  meta_pipeline :: "pipeline option"

text \<open>
  The execution context. \<^verbatim>\<open>selected_asset_keys\<close> is a Python set: the list is the
  order in which iterating it gives its keys. \<^verbatim>\<open>metadata_by_key\<close> is a dict in
  insertion order. \<open>is_asset_context\<close> is the \<^verbatim>\<open>isinstance(context, AssetExecutionContext)\<close> test.
\<close>

record execution_context =
  selected_asset_keys :: "asset_key list"
  is_subset :: bool
  metadata_by_key :: "(asset_key \<times> asset_metadata) list"
  is_asset_context :: bool

datatype event =
    MaterializeResult asset_key py_dict
  | AssetMaterialization asset_key py_dict

fun event_key :: "event \<Rightarrow> asset_key" where
  "event_key (MaterializeResult k m) = k"
| "event_key (AssetMaterialization k m) = k"

fun event_metadata :: "event \<Rightarrow> py_dict" where
  "event_metadata (MaterializeResult k m) = m"
| "event_metadata (AssetMaterialization k m) = m"

text \<open>
  Lines 165 to 176: the zip of the selected keys with the source's resources, filtered in
  a subset run by membership of the key in the selected keys.
\<close>

definition execution_pairing :: "execution_context \<Rightarrow> dlt_source \<Rightarrow> (asset_key \<times> dlt_resource) list" where
  "execution_pairing ctx src =
     (let asset_key_dlt_source_resource_mapping = zip (selected_asset_keys ctx) (resources src)
      in if is_subset ctx
         then filter (\<lambda>(asset_key, dlt_source_resource). asset_key \<in> set (selected_asset_keys ctx))
                asset_key_dlt_source_resource_mapping
         else asset_key_dlt_source_resource_mapping)"

text \<open>Lines 177 to 182: the source the pipeline is run on.\<close>

definition narrowed_source :: "execution_context \<Rightarrow> dlt_source \<Rightarrow> dlt_source" where
  "narrowed_source ctx src =
     (if is_subset ctx
      then with_resources (map (\<lambda>(k, dlt_source_resource). name dlt_source_resource)
             (execution_pairing ctx src)) src
      else src)"

text \<open>
  What a generator does is the records it yields, in order, and the exception that ends
  it, if any; \<open>pipeline_calls\<close> logs the sources the pipeline was run on.
\<close>

record run_outcome =
  pipeline_calls :: "dlt_source list"
  yielded :: "event list"
  raised :: "error option"

text \<open>The loop of lines 186 to 192: it stops at the first extraction that raises.\<close>

fun emit :: "bool \<Rightarrow> load_info \<Rightarrow> (asset_key \<times> dlt_resource) list \<Rightarrow> event list \<times> error option" where
  "emit asset_ctx li [] = ([], None)"
| "emit asset_ctx li ((asset_key, dlt_source_resource) # rest) =
     (case extract_resource_metadata dlt_source_resource li of
        Inl e \<Rightarrow> ([], Some e)
      | Inr metadata \<Rightarrow>
          (let (evs, err) = emit asset_ctx li rest
           in ((if asset_ctx then MaterializeResult asset_key metadata
                else AssetMaterialization asset_key metadata) # evs, err)))"

text \<open>
  \<^verbatim>\<open>run\<close>. \<^verbatim>\<open>next(iter(metadata_by_key.values()))\<close> on an empty dict raises
  \<^verbatim>\<open>StopIteration\<close> (which leaves a generator as a \<^verbatim>\<open>RuntimeError\<close>);
  \<^verbatim>\<open>not dlt_source or not dlt_pipeline\<close> holds when either lookup gave \<^verbatim>\<open>None\<close>,
  a stored \<^verbatim>\<open>DltSource\<close> or \<^verbatim>\<open>Pipeline\<close> object being truthy. The configuration
  error is the \<^verbatim>\<open>Exception\<close> of lines 159 to 163.
\<close>

definition run :: "execution_context \<Rightarrow> py_dict \<Rightarrow> run_outcome" where
  "run ctx kwargs =
     (case metadata_by_key ctx of
        [] \<Rightarrow> \<lparr>pipeline_calls = [], yielded = [], raised = Some StopIteration\<rparr>
      | (k, first_asset_metadata) # others \<Rightarrow>
          (case meta_source first_asset_metadata of
             None \<Rightarrow> \<lparr>pipeline_calls = [], yielded = [], raised = Some ConfigurationError\<rparr>
           | Some src \<Rightarrow>
               (case meta_pipeline first_asset_metadata of
                  None \<Rightarrow> \<lparr>pipeline_calls = [], yielded = [], raised = Some ConfigurationError\<rparr>
                | Some dlt_pipeline \<Rightarrow>
                    (case dlt_pipeline (narrowed_source ctx src) kwargs of
                       Inl msg \<Rightarrow> \<lparr>pipeline_calls = [narrowed_source ctx src], yielded = [],
                                   raised = Some (PipelineExecutionFailure msg)\<rparr>
                     | Inr load_info \<Rightarrow>
                         (let (evs, err) = emit (is_asset_context ctx) load_info
                                             (execution_pairing ctx src)
                          in \<lparr>pipeline_calls = [narrowed_source ctx src], yielded = evs,
                              raised = err\<rparr>)))))"

text \<open>
  \<^verbatim>\<open>dlt_assets\<close>: one spec per resource of the source, in order, each carrying the
  key the translator derives and the references to the source and the pipeline. The
  translator is the \<^verbatim>\<open>get_asset_key\<close> of the \<^verbatim>\<open>dlt_dagster_translator\<close> argument,
  which a subclass may override.
\<close>

definition dlt_assets ::
  "dlt_source \<Rightarrow> pipeline \<Rightarrow> (dlt_resource \<Rightarrow> asset_key) \<Rightarrow> (asset_key \<times> asset_metadata) list" where
  "dlt_assets src dlt_pipeline translator =
     map (\<lambda>dlt_source_resource.
            (translator dlt_source_resource,
             \<lparr>meta_source = Some src, meta_pipeline = Some dlt_pipeline\<rparr>))
         (resources src)"

subsection \<open>Example inputs\<close>

text \<open>
  A source with the two resources \<open>alpha\<close> and \<open>beta\<close>, a pipeline that returns an empty
  report, and the contexts of a full run, of a subset run that selects \<open>beta\<close> alone, of
  a subset run that selects no key, and of a run whose stored metadata lacks the
  pipeline.
\<close>

definition alpha :: dlt_resource where
  "alpha = \<lparr>source_name = ''s'', name = ''alpha'', table_name = ''alpha''\<rparr>"

definition beta :: dlt_resource where
  "beta = \<lparr>source_name = ''s'', name = ''beta'', table_name = ''beta''\<rparr>"

definition example_source :: dlt_source where
  "example_source = \<lparr>resources = [alpha, beta]\<rparr>"

definition empty_report_pipeline :: pipeline where
  "empty_report_pipeline src kwargs = Inr []"

definition full_context :: execution_context where
  "full_context =
     \<lparr>selected_asset_keys = [get_asset_key alpha, get_asset_key beta], is_subset = False,
      metadata_by_key = dlt_assets example_source empty_report_pipeline get_asset_key,
      is_asset_context = True\<rparr>"

definition subset_beta_context :: execution_context where
  "subset_beta_context =
     \<lparr>selected_asset_keys = [get_asset_key beta], is_subset = True,
      metadata_by_key = dlt_assets example_source empty_report_pipeline get_asset_key,
      is_asset_context = True\<rparr>"


definition no_pipeline_context :: execution_context where
  "no_pipeline_context =
     \<lparr>selected_asset_keys = [get_asset_key alpha, get_asset_key beta], is_subset = False,
      metadata_by_key =
        [(get_asset_key alpha, \<lparr>meta_source = Some example_source, meta_pipeline = None\<rparr>),
         (get_asset_key beta, \<lparr>meta_source = Some example_source, meta_pipeline = None\<rparr>)],
      is_asset_context = True\<rparr>"

text \<open>A report with two load packages whose jobs for two tables are interleaved.\<close>

definition orders_job :: val where
  "orders_job =
     VDict [(''table_name'', VStr ''orders''),
            (''started_at'', VDateTime ''2024-01-01T00:00:00+00:00'')]"

definition customers_job :: val where
  "customers_job = VDict [(''table_name'', VStr ''customers'')]"

definition example_load_info :: load_info where
  "example_load_info =
     [(''first_run'', VBool True),
      (''load_packages'',
         VList [VDict [(''jobs'', VList [customers_job, orders_job])],
                VDict [(''jobs'', VList [orders_job, customers_job])]])]"

text \<open>
  A pipeline whose report has one job for the table of \<open>alpha\<close> and one for the table of
  \<open>beta\<close>, the context of a subset run on it that selects \<open>beta\<close> alone, and the context
  of a full run on it in which iterating the set of selected keys gives the key of
  \<open>beta\<close> first.
\<close>

definition alpha_job :: val where
  "alpha_job = VDict [(''table_name'', VStr ''alpha'')]"

definition beta_job :: val where
  "beta_job = VDict [(''table_name'', VStr ''beta'')]"

definition two_table_report :: load_info where
  "two_table_report =
     [(''load_packages'', VList [VDict [(''jobs'', VList [alpha_job, beta_job])]])]"

definition two_table_pipeline :: pipeline where
  "two_table_pipeline src kwargs = Inr two_table_report"

definition subset_beta_report_context :: execution_context where
  "subset_beta_report_context =
     \<lparr>selected_asset_keys = [get_asset_key beta], is_subset = True,
      metadata_by_key = dlt_assets example_source two_table_pipeline get_asset_key,
      is_asset_context = True\<rparr>"

definition swapped_full_context :: execution_context where
  "swapped_full_context =
     \<lparr>selected_asset_keys = [get_asset_key beta, get_asset_key alpha], is_subset = False,
      metadata_by_key = dlt_assets example_source two_table_pipeline get_asset_key,
      is_asset_context = True\<rparr>"

section \<open>Properties\<close>

subsection \<open>Normalisation\<close>

lemma map_of_cast_items:
  "map_of (map (map_prod id recursive_cast) kvs) k = map_option recursive_cast (map_of kvs k)"
  by (induction kvs) auto

lemma map_of_cast_load_info_metadata:
  "map_of (cast_load_info_metadata m) k = map_option recursive_cast (map_of m k)"
  by (induction m) (auto simp: cast_load_info_metadata_def)

lemma recursive_cast_idem: "recursive_cast (recursive_cast v) = recursive_cast v"
  by (induction v) auto

lemma recursive_cast_no_rich: "no_rich_values v \<Longrightarrow> recursive_cast v = v"
proof (induction v)
  case (VList xs)
  then show ?case by (simp add: list_all_iff map_idI)
next
  case (VDict kvs)
  have "map (map_prod id recursive_cast) kvs = map id kvs"
  proof (rule map_cong[OF refl])
    fix kv assume kv: "kv \<in> set kvs"
    obtain k v where [simp]: "kv = (k, v)" by (cases kv)
    from kv VDict.prems have "no_rich_values v" by (auto simp: list_all_iff)
    with VDict.IH[of kv v] kv show "map_prod id recursive_cast kv = id kv" by simp
  qed
  then show ?case by simp
qed simp_all

text \<open>
  C7. Normalising a mapping gives a mapping with the same keys, in the same order, whose
  value at each key is the normalised value; normalising a list gives the list of the
  normalised items; a pendulum \<^verbatim>\<open>DateTime\<close> or \<^verbatim>\<open>Timezone\<close> becomes its string
  form; any other value is returned as it is. The same holds of the top-level
  \<^verbatim>\<open>_cast_load_info_metadata\<close>. The functions build their results with
  comprehensions and assign to nothing, so they are functions of their argument alone.
\<close>

theorem normalize_contract:
  "recursive_cast (VDict kvs) = VDict (map (\<lambda>(k, x). (k, recursive_cast x)) kvs)
   \<and> (\<exists>kvs'. recursive_cast (VDict kvs) = VDict kvs' \<and> map fst kvs' = map fst kvs
        \<and> map_of kvs' key = map_option recursive_cast (map_of kvs key))
   \<and> recursive_cast (VList xs) = VList (map recursive_cast xs)
   \<and> recursive_cast (VDateTime s) = VStr s
   \<and> recursive_cast (VTimezone s) = VStr s
   \<and> (\<not> is_dict v \<and> \<not> is_list v \<and> \<not> is_rich v \<longrightarrow> recursive_cast v = v)
   \<and> map fst (cast_load_info_metadata m) = map fst m
   \<and> map_of (cast_load_info_metadata m) key = map_option recursive_cast (map_of m key)"
proof -
  have a: "map (map_prod id recursive_cast) kvs = map (\<lambda>(k, x). (k, recursive_cast x)) kvs"
    by (rule map_cong) auto
  have b: "map fst (map (map_prod id recursive_cast) kvs) = map fst kvs"
    by (simp add: comp_def)
  have c: "\<not> is_dict v \<and> \<not> is_list v \<and> \<not> is_rich v \<longrightarrow> recursive_cast v = v"
    by (cases v) simp_all
  have d: "map fst (cast_load_info_metadata m) = map fst m"
    by (simp add: cast_load_info_metadata_def comp_def case_prod_unfold)
  show ?thesis
    using a b c d by (simp add: map_of_cast_items map_of_cast_load_info_metadata)
qed

theorem normalize_contract_witness:
  "recursive_cast (VDict [(''t'', VDateTime ''2024-01-01T00:00:00+00:00''), (''n'', VInt 1)])
     = VDict [(''t'', VStr ''2024-01-01T00:00:00+00:00''), (''n'', VInt 1)]
   \<and> recursive_cast (VList [VTimezone ''UTC'', VList [VDateTime ''d'']])
     = VList [VStr ''UTC'', VList [VStr ''d'']]
   \<and> \<not> is_dict (VOpaque ''obj'') \<and> \<not> is_list (VOpaque ''obj'') \<and> \<not> is_rich (VOpaque ''obj'')
   \<and> recursive_cast (VOpaque ''obj'') = VOpaque ''obj''"
  using normalize_contract [of "[(''t'', VDateTime ''2024-01-01T00:00:00+00:00''), (''n'', VInt 1)]"
      "''t''" "[VTimezone ''UTC'', VList [VDateTime ''d'']]" "''x''" "VOpaque ''obj''" "[]"]
  by simp

text \<open>
  C8. Normalising a normalised value changes nothing, for a single value and for the
  top-level mapping, and a value that holds no pendulum object (so any structure of plain
  scalars, lists and mappings) is returned equal to itself.
\<close>

theorem normalize_idempotent:
  "recursive_cast (recursive_cast x) = recursive_cast x
   \<and> cast_load_info_metadata (cast_load_info_metadata m) = cast_load_info_metadata m
   \<and> (no_rich_values y \<longrightarrow> recursive_cast y = y)"
  by (simp add: recursive_cast_idem recursive_cast_no_rich cast_load_info_metadata_def
      case_prod_unfold comp_def)

theorem normalize_idempotent_witness:
  "no_rich_values (VDict [(''a'', VList [VInt 1, VStr ''s'', VNone]), (''b'', VBool True)])
   \<and> recursive_cast (VDict [(''a'', VList [VInt 1, VStr ''s'', VNone]), (''b'', VBool True)])
     = VDict [(''a'', VList [VInt 1, VStr ''s'', VNone]), (''b'', VBool True)]
   \<and> recursive_cast (recursive_cast (VDict [(''t'', VDateTime ''2024-01-01'')]))
     = VDict [(''t'', VStr ''2024-01-01'')]"
  using normalize_idempotent [of "VDict [(''t'', VDateTime ''2024-01-01'')]" "[]"
      "VDict [(''a'', VList [VInt 1, VStr ''s'', VNone]), (''b'', VBool True)]"]
  by simp

text \<open>
  C10. A value that is neither a dict, nor a list, nor a pendulum \<^verbatim>\<open>DateTime\<close> or
  \<^verbatim>\<open>Timezone\<close> is returned unchanged: \<open>recursive_cast\<close> has a result for every value
  and no branch of it raises. An object of an unrecognised class passes through, and a
  tuple is not descended into, so a pendulum object inside a tuple stays as it is, also
  when the tuple sits in a list.
\<close>

theorem normalize_permissive:
  "(\<not> is_dict v \<and> \<not> is_list v \<and> \<not> is_rich v \<longrightarrow> recursive_cast v = v)
   \<and> recursive_cast (VOpaque s) = VOpaque s
   \<and> recursive_cast (VTuple xs) = VTuple xs
   \<and> recursive_cast (VTuple [VDateTime d]) = VTuple [VDateTime d]
   \<and> recursive_cast (VList [VTuple [VDateTime d]]) = VList [VTuple [VDateTime d]]"
  by (cases v) simp_all

theorem normalize_permissive_witness:
  "\<not> is_dict (VTuple [VTimezone ''UTC'']) \<and> \<not> is_list (VTuple [VTimezone ''UTC''])
   \<and> \<not> is_rich (VTuple [VTimezone ''UTC''])
   \<and> recursive_cast (VTuple [VTimezone ''UTC'']) = VTuple [VTimezone ''UTC'']"
  using normalize_permissive [of "VTuple [VTimezone ''UTC'']"]
  by simp

subsection \<open>Extraction\<close>

lemma recursive_cast_eq_VStr:
  "\<not> is_rich v \<Longrightarrow> recursive_cast v = VStr t \<longleftrightarrow> v = VStr t"
  by (cases v) auto

lemma select_jobs_wf:
  "list_all wf_job js \<Longrightarrow>
   select_jobs t (map recursive_cast js)
     = Inr (map recursive_cast (filter (\<lambda>j. job_table j = Some (VStr t)) js))"
proof (induction js)
  case Nil
  then show ?case by simp
next
  case (Cons j js)
  from Cons.prems obtain kvs where j: "j = VDict kvs"
    by (cases j) (auto simp: wf_job_def)
  have tn: "dict_get (map (map_prod id recursive_cast) kvs) ''table_name'' VNone = VStr t
            \<longleftrightarrow> map_of kvs ''table_name'' = Some (VStr t)"
  proof (cases "map_of kvs ''table_name''")
    case None
    then show ?thesis by (simp add: dict_get_def map_of_cast_items)
  next
    case (Some tn)
    with Cons.prems j have "\<not> is_rich tn" by (simp add: wf_job_def)
    with Some show ?thesis
      by (simp add: dict_get_def map_of_cast_items recursive_cast_eq_VStr)
  qed
  from Cons have IH: "select_jobs t (map recursive_cast js)
     = Inr (map recursive_cast (filter (\<lambda>j. job_table j = Some (VStr t)) js))" by simp
  show ?case
    using tn by (simp add: j IH job_table_def)
qed

lemma package_jobs_VDict:
  "package_jobs (VDict kvs) = (case map_of kvs ''jobs'' of Some (VList js) \<Rightarrow> js | _ \<Rightarrow> [])"
  by (simp add: package_jobs_def)

lemma collect_jobs_wf:
  "list_all wf_load_package lps \<Longrightarrow>
   collect_jobs t (map recursive_cast lps)
     = Inr (map recursive_cast
              (filter (\<lambda>j. job_table j = Some (VStr t)) (concat (map package_jobs lps))))"
proof (induction lps)
  case Nil
  then show ?case by simp
next
  case (Cons lp lps)
  from Cons.prems obtain kvs where lp: "lp = VDict kvs"
    by (cases lp) (auto simp: wf_load_package_def)
  from Cons have IH: "collect_jobs t (map recursive_cast lps)
     = Inr (map recursive_cast
              (filter (\<lambda>j. job_table j = Some (VStr t)) (concat (map package_jobs lps))))"
    by simp
  show ?case
  proof (cases "map_of kvs ''jobs''")
    case None
    then show ?thesis
      by (simp add: lp IH dict_get_def map_of_cast_items package_jobs_VDict)
  next
    case (Some jv)
    with Cons.prems lp obtain js where jv: "jv = VList js" and wf: "list_all wf_job js"
      by (cases jv) (auto simp: wf_load_package_def)
    show ?thesis
      using Some jv
      by (simp add: lp IH dict_get_def map_of_cast_items package_jobs_VDict select_jobs_wf[OF wf])
  qed
qed

lemma extract_wf:
  assumes "wf_load_info li"
  shows "extract_resource_metadata r li =
     Inr (AList.update ''jobs''
            (VList (map recursive_cast
               (filter (\<lambda>j. job_table j = Some (VStr (table_name r))) (report_jobs li))))
            (filter (\<lambda>(k, v). k \<in> set dlt_base_metadata_types) (cast_load_info_metadata li)))"
proof (cases "map_of li ''load_packages''")
  case None
  then show ?thesis
    by (simp add: extract_resource_metadata_def dict_get_def map_of_cast_load_info_metadata
        report_jobs_def)
next
  case (Some v)
  with assms obtain lps where v: "v = VList lps" and wf: "list_all wf_load_package lps"
    by (cases v) (auto simp: wf_load_info_def)
  show ?thesis
    using Some v
    by (simp add: extract_resource_metadata_def dict_get_def map_of_cast_load_info_metadata
        report_jobs_def collect_jobs_wf[OF wf])
qed

text \<open>
  C6. For a report of the shape dlt gives it, \<^verbatim>\<open>extract_resource_metadata\<close> returns
  a mapping whose \<^verbatim>\<open>jobs\<close> entry is the list of the job records of all load packages
  whose \<^verbatim>\<open>table_name\<close> is the resource's table name, in the order they have in the
  report, whatever jobs of other tables lie between them; each record is the normalised
  one, since the report is normalised before the jobs are read.
\<close>

theorem extract_jobs_for_table:
  assumes "wf_load_info li"
  shows "\<exists>md. extract_resource_metadata r li = Inr md
           \<and> map_of md ''jobs'' =
               Some (VList (map recursive_cast
                 (filter (\<lambda>j. job_table j = Some (VStr (table_name r))) (report_jobs li))))"
  by (simp add: extract_wf[OF assms] update_conv')

theorem extract_jobs_for_table_witness:
  "wf_load_info example_load_info
   \<and> (\<exists>md. extract_resource_metadata \<lparr>source_name = ''shop'', name = ''orders'', table_name = ''orders''\<rparr>
              example_load_info = Inr md
        \<and> map_of md ''jobs'' = Some (VList
             [VDict [(''table_name'', VStr ''orders''), (''started_at'', VStr ''2024-01-01T00:00:00+00:00'')],
              VDict [(''table_name'', VStr ''orders''), (''started_at'', VStr ''2024-01-01T00:00:00+00:00'')]]))"
proof -
  have wf: "wf_load_info example_load_info"
    by (simp add: example_load_info_def wf_load_info_def wf_load_package_def wf_job_def
        orders_job_def customers_job_def)
  have rj: "map recursive_cast (filter (\<lambda>j. job_table j = Some (VStr ''orders'')) (report_jobs example_load_info))
     = [VDict [(''table_name'', VStr ''orders''), (''started_at'', VStr ''2024-01-01T00:00:00+00:00'')],
              VDict [(''table_name'', VStr ''orders''), (''started_at'', VStr ''2024-01-01T00:00:00+00:00'')]]"
    by (simp add: example_load_info_def report_jobs_def package_jobs_def job_table_def
        orders_job_def customers_job_def)
  show ?thesis
    using wf extract_jobs_for_table [OF wf, of "\<lparr>source_name = ''shop'', name = ''orders'', table_name = ''orders''\<rparr>"]
    by (simp add: rj)
qed

subsection \<open>Asset keys\<close>

lemma split_at_first_separator:
  "x \<notin> set xs \<Longrightarrow> x \<notin> set ys \<Longrightarrow> xs @ x # xs' = ys @ x # ys' \<Longrightarrow> xs = ys \<and> xs' = ys'"
proof (induction xs arbitrary: ys)
  case Nil
  then show ?case by (cases ys) auto
next
  case (Cons a xs)
  then show ?case by (cases ys) auto
qed

text \<open>
  C2. The default key joins the source name and the resource name with an underscore, so
  two distinct pairs whose names contain underscores can give one key: source \<^verbatim>\<open>a_b\<close>
  with resource \<^verbatim>\<open>c\<close>, and source \<^verbatim>\<open>a\<close> with resource \<^verbatim>\<open>b_c\<close>.
\<close>

theorem get_asset_key_collision:
  "(source_name \<lparr>source_name = ''a_b'', name = ''c'', table_name = ''t''\<rparr>,
    name \<lparr>source_name = ''a_b'', name = ''c'', table_name = ''t''\<rparr>)
   \<noteq> (source_name \<lparr>source_name = ''a'', name = ''b_c'', table_name = ''t''\<rparr>,
       name \<lparr>source_name = ''a'', name = ''b_c'', table_name = ''t''\<rparr>)
   \<and> get_asset_key \<lparr>source_name = ''a_b'', name = ''c'', table_name = ''t''\<rparr>
     = get_asset_key \<lparr>source_name = ''a'', name = ''b_c'', table_name = ''t''\<rparr>"
  by (simp add: get_asset_key_def AssetKey_def)

text \<open>
  C2, as amended. Two resources with distinct (source name, resource name) pairs have
  distinct keys when they have the same source name, as the resources of one source do,
  or when neither source name contains an underscore.
\<close>

theorem get_asset_key_injective:
  assumes "source_name r1 = source_name r2
           \<or> (CHR ''_'' \<notin> set (source_name r1) \<and> CHR ''_'' \<notin> set (source_name r2))"
    and "(source_name r1, name r1) \<noteq> (source_name r2, name r2)"
  shows "get_asset_key r1 \<noteq> get_asset_key r2"
proof
  assume "get_asset_key r1 = get_asset_key r2"
  then have eq: "source_name r1 @ CHR ''_'' # name r1 = source_name r2 @ CHR ''_'' # name r2"
    by (simp add: get_asset_key_def AssetKey_def)
  from assms(1) have "source_name r1 = source_name r2 \<and> name r1 = name r2"
  proof
    assume "source_name r1 = source_name r2"
    with eq show ?thesis by simp
  next
    assume "CHR ''_'' \<notin> set (source_name r1) \<and> CHR ''_'' \<notin> set (source_name r2)"
    then have a: "CHR ''_'' \<notin> set (source_name r1)" and b: "CHR ''_'' \<notin> set (source_name r2)"
      by blast+
    from split_at_first_separator [OF a b eq] show ?thesis .
  qed
  with assms(2) show False by simp
qed

theorem get_asset_key_injective_witness:
  "(source_name alpha = source_name beta
      \<or> (CHR ''_'' \<notin> set (source_name alpha) \<and> CHR ''_'' \<notin> set (source_name beta)))
   \<and> (source_name alpha, name alpha) \<noteq> (source_name beta, name beta)
   \<and> get_asset_key alpha \<noteq> get_asset_key beta"
proof -
  have h1: "source_name alpha = source_name beta
      \<or> (CHR ''_'' \<notin> set (source_name alpha) \<and> CHR ''_'' \<notin> set (source_name beta))"
    by (simp add: alpha_def beta_def)
  have h2: "(source_name alpha, name alpha) \<noteq> (source_name beta, name beta)"
    by (simp add: alpha_def beta_def)
  from get_asset_key_injective [OF h1 h2] h1 h2 show ?thesis by simp
qed

subsection \<open>The execution pairing\<close>

text \<open>
  The keys the filter of a subset run tests are the selected keys themselves, so the
  filter keeps every entry: in every run the pairing is the zip.
\<close>

lemma execution_pairing_is_zip:
  "execution_pairing ctx src = zip (selected_asset_keys ctx) (resources src)"
proof -
  have "filter (\<lambda>(asset_key, r). asset_key \<in> set xs) (zip xs ys) = zip xs ys"
    for xs :: "asset_key list" and ys :: "dlt_resource list"
    by (rule filter_True) (auto dest: set_zip_leftD)
  then show ?thesis by (simp add: execution_pairing_def Let_def)
qed

text \<open>
  C1. In a subset run on the source with resources \<open>alpha\<close>, \<open>beta\<close> that selects the key
  of \<open>beta\<close> alone, the pairing the code builds is the key of \<open>beta\<close> with the resource
  \<open>alpha\<close>, and the source is narrowed to \<open>alpha\<close>; pairing each resource with the key
  derived from it and keeping those whose key is selected gives the key of \<open>beta\<close> with
  \<open>beta\<close>.
\<close>

theorem subset_run_pairs_wrong_resource:
  "is_subset subset_beta_context
   \<and> set (selected_asset_keys subset_beta_context) = {get_asset_key beta}
   \<and> execution_pairing subset_beta_context example_source = [(get_asset_key beta, alpha)]
   \<and> [(get_asset_key r, r). r \<leftarrow> resources example_source,
         get_asset_key r \<in> set (selected_asset_keys subset_beta_context)]
       = [(get_asset_key beta, beta)]
   \<and> resources (narrowed_source subset_beta_context example_source) = [alpha]"
  by (simp add: subset_beta_context_def example_source_def execution_pairing_def
      narrowed_source_def with_resources_def alpha_def beta_def get_asset_key_def AssetKey_def)



text \<open>
  C4. In a full run of a unit built by \<^verbatim>\<open>dlt_assets\<close> from the source (the keys of the
  unit are distinct, and the selected keys are all of them), the pairing has as many
  entries as the source has resources, and its resources are the source's resources, each
  once, in the source's order.
\<close>

theorem full_run_covers_every_resource:
  assumes "\<not> is_subset ctx"
    and "metadata_by_key ctx = dlt_assets src p translator"
    and "distinct (map fst (metadata_by_key ctx))"
    and "distinct (selected_asset_keys ctx)"
    and "set (selected_asset_keys ctx) = set (map fst (metadata_by_key ctx))"
  shows "length (execution_pairing ctx src) = length (resources src)
         \<and> map snd (execution_pairing ctx src) = resources src"
proof -
  have keys: "map fst (metadata_by_key ctx) = map translator (resources src)"
    by (simp add: assms(2) dlt_assets_def comp_def)
  have "length (selected_asset_keys ctx) = card (set (selected_asset_keys ctx))"
    using assms(4) by (simp add: distinct_card)
  also have "\<dots> = card (set (map fst (metadata_by_key ctx)))"
    by (simp only: assms(5))
  also have "\<dots> = length (map fst (metadata_by_key ctx))"
    using assms(3) by (rule distinct_card)
  also have "\<dots> = length (resources src)"
    by (simp add: keys)
  finally have len: "length (selected_asset_keys ctx) = length (resources src)" .
  then show ?thesis
    using assms(1) by (simp add: execution_pairing_def)
qed

theorem full_run_covers_every_resource_witness:
  "\<not> is_subset full_context
   \<and> metadata_by_key full_context = dlt_assets example_source empty_report_pipeline get_asset_key
   \<and> distinct (map fst (metadata_by_key full_context))
   \<and> distinct (selected_asset_keys full_context)
   \<and> set (selected_asset_keys full_context) = set (map fst (metadata_by_key full_context))
   \<and> length (execution_pairing full_context example_source) = 2
   \<and> map snd (execution_pairing full_context example_source) = [alpha, beta]"
proof -
  have h1: "\<not> is_subset full_context" by (simp add: full_context_def)
  have h2: "metadata_by_key full_context
            = dlt_assets example_source empty_report_pipeline get_asset_key"
    by (simp add: full_context_def)
  have h3: "distinct (map fst (metadata_by_key full_context))"
    by (simp add: full_context_def dlt_assets_def example_source_def alpha_def beta_def
        get_asset_key_def AssetKey_def)
  have h4: "distinct (selected_asset_keys full_context)"
    by (simp add: full_context_def alpha_def beta_def get_asset_key_def AssetKey_def)
  have h5: "set (selected_asset_keys full_context) = set (map fst (metadata_by_key full_context))"
    by (simp add: full_context_def dlt_assets_def example_source_def)
  from full_run_covers_every_resource [OF h1 h2 h3 h4 h5] h1 h2 h3 h4 h5
  show ?thesis by (simp add: example_source_def)
qed

subsection \<open>The records of a run\<close>

lemma emit_wf_total: "wf_load_info li \<Longrightarrow> snd (emit a li ps) = None"
proof (induction ps)
  case Nil
  then show ?case by simp
next
  case (Cons kr ps)
  obtain key r where kr: "kr = (key, r)" by (cases kr)
  from Cons show ?case
    by (simp add: kr extract_wf case_prod_unfold Let_def)
qed

lemma emit_complete:
  "emit a li ps = (evs, None) \<Longrightarrow>
   map event_key evs = map fst ps
   \<and> map (\<lambda>ev. Inr (event_metadata ev)) evs = map (\<lambda>(key, r). extract_resource_metadata r li) ps"
proof (induction ps arbitrary: evs)
  case Nil
  then show ?case by simp
next
  case (Cons kr ps)
  obtain key r where kr: "kr = (key, r)" by (cases kr)
  from Cons.prems obtain metadata where ex: "extract_resource_metadata r li = Inr metadata"
    by (cases "extract_resource_metadata r li") (auto simp: kr)
  obtain evs' err where em: "emit a li ps = (evs', err)" by (cases "emit a li ps")
  from Cons.prems have err: "err = None"
    and evs: "evs = (if a then MaterializeResult key metadata
                     else AssetMaterialization key metadata) # evs'"
    by (auto simp: kr ex em)
  from Cons.IH[of evs'] em err
  have "map event_key evs' = map fst ps
   \<and> map (\<lambda>ev. Inr (event_metadata ev)) evs' = map (\<lambda>(key, r). extract_resource_metadata r li) ps"
    by simp
  then show ?case by (simp add: evs kr ex)
qed

text \<open>
  What the loop of lines 186 to 192 does with the pairing it is given: when the references
  resolve and the pipeline returns a report, a report of the shape dlt gives it makes the
  run end without an exception, and a run that ends without an exception has yielded one
  record for each entry of the pairing, in the order of the pairing, with the entry's key
  and the metadata extracted for the entry's resource.
\<close>

lemma run_records_follow_pairing:
  assumes "metadata_by_key ctx = (k, md) # others"
    and "meta_source md = Some src"
    and "meta_pipeline md = Some p"
    and "p (narrowed_source ctx src) kwargs = Inr li"
  shows "(wf_load_info li \<longrightarrow> raised (run ctx kwargs) = None)
     \<and> (raised (run ctx kwargs) = None \<longrightarrow>
          length (yielded (run ctx kwargs)) = length (execution_pairing ctx src)
          \<and> map event_key (yielded (run ctx kwargs)) = map fst (execution_pairing ctx src)
          \<and> map (\<lambda>ev. Inr (event_metadata ev)) (yielded (run ctx kwargs))
              = map (\<lambda>(key, r). extract_resource_metadata r li) (execution_pairing ctx src))"
proof -
  obtain evs err where em: "emit (is_asset_context ctx) li (execution_pairing ctx src) = (evs, err)"
    by (cases "emit (is_asset_context ctx) li (execution_pairing ctx src)")
  have r: "raised (run ctx kwargs) = err" and y: "yielded (run ctx kwargs) = evs"
    by (simp_all add: run_def assms em)
  have a: "wf_load_info li \<longrightarrow> err = None"
    using emit_wf_total[of li "is_asset_context ctx" "execution_pairing ctx src"] em by simp
  have b: "err = None \<longrightarrow>
          map event_key evs = map fst (execution_pairing ctx src)
          \<and> map (\<lambda>ev. Inr (event_metadata ev)) evs
              = map (\<lambda>(key, r). extract_resource_metadata r li) (execution_pairing ctx src)"
    using emit_complete[of "is_asset_context ctx" li "execution_pairing ctx src" evs] em by simp
  have c: "err = None \<longrightarrow> length evs = length (execution_pairing ctx src)"
  proof
    assume "err = None"
    with b have "map event_key evs = map fst (execution_pairing ctx src)" by simp
    then have "length (map event_key evs) = length (map fst (execution_pairing ctx src))"
      by (rule arg_cong)
    then show "length evs = length (execution_pairing ctx src)" by simp
  qed
  show ?thesis using a b c by (simp add: r y)
qed


lemma extract_two_table_report:
  "extract_resource_metadata alpha two_table_report = Inr [(''jobs'', VList [alpha_job])]
   \<and> extract_resource_metadata beta two_table_report = Inr [(''jobs'', VList [beta_job])]"
  by (simp add: extract_resource_metadata_def cast_load_info_metadata_def dict_get_def
      two_table_report_def alpha_job_def beta_job_def alpha_def beta_def
      dlt_base_metadata_types_def)


text \<open>
  C5. The pairing the loop walks is the zip of the selected keys with the resources, so
  its order is not the order of the resource collection filtered by the selection, and a
  record does not carry the metadata of the resource its key belongs to. In the subset
  run that selects \<open>beta\<close> alone the one record has the key of \<open>beta\<close> and the jobs of
  \<open>alpha\<close>, where the metadata extracted for \<open>beta\<close> holds the job of \<open>beta\<close>; in the full
  run whose set of selected keys iterates the key of \<open>beta\<close> first, the jobs of \<open>alpha\<close>
  are yielded under the key of \<open>beta\<close> and the jobs of \<open>beta\<close> under the key of \<open>alpha\<close>.
\<close>

theorem run_reports_resource_under_other_key:
  "is_subset subset_beta_report_context
   \<and> selected_asset_keys subset_beta_report_context = [get_asset_key beta]
   \<and> raised (run subset_beta_report_context []) = None
   \<and> yielded (run subset_beta_report_context [])
       = [MaterializeResult (get_asset_key beta) [(''jobs'', VList [alpha_job])]]
   \<and> extract_resource_metadata beta two_table_report = Inr [(''jobs'', VList [beta_job])]
   \<and> \<not> is_subset swapped_full_context
   \<and> yielded (run swapped_full_context [])
       = [MaterializeResult (get_asset_key beta) [(''jobs'', VList [alpha_job])],
          MaterializeResult (get_asset_key alpha) [(''jobs'', VList [beta_job])]]"
proof -
  have names: "name alpha = ''alpha''" "name beta = ''beta''"
    by (simp_all add: alpha_def beta_def)
  have a: "run subset_beta_report_context []
      = \<lparr>pipeline_calls = [\<lparr>resources = [alpha]\<rparr>],
         yielded = [MaterializeResult (get_asset_key beta) [(''jobs'', VList [alpha_job])]],
         raised = None\<rparr>"
    by (simp add: run_def subset_beta_report_context_def dlt_assets_def example_source_def
        execution_pairing_def narrowed_source_def with_resources_def two_table_pipeline_def
        extract_two_table_report names)
  have b: "run swapped_full_context []
      = \<lparr>pipeline_calls = [example_source],
         yielded = [MaterializeResult (get_asset_key beta) [(''jobs'', VList [alpha_job])],
                    MaterializeResult (get_asset_key alpha) [(''jobs'', VList [beta_job])]],
         raised = None\<rparr>"
    by (simp add: run_def swapped_full_context_def dlt_assets_def example_source_def
        execution_pairing_def narrowed_source_def two_table_pipeline_def
        extract_two_table_report)
  have c: "is_subset subset_beta_report_context"
    and d: "selected_asset_keys subset_beta_report_context = [get_asset_key beta]"
    by (simp_all add: subset_beta_report_context_def)
  have e: "\<not> is_subset swapped_full_context"
    by (simp add: swapped_full_context_def)
  show ?thesis
    using c d e by (simp add: a b extract_two_table_report)
qed

subsection \<open>The configuration error\<close>

lemma iter_val_err: "iter_val v = Inl e \<Longrightarrow> e = TypeError"
  by (cases v) auto

lemma val_get_err: "val_get v k d = Inl e \<Longrightarrow> e = AttributeError"
  by (cases v) auto

lemma select_jobs_err: "select_jobs t js = Inl e \<Longrightarrow> e = AttributeError"
  by (induction js arbitrary: e) (auto split: sum.splits dest: val_get_err)

lemma collect_jobs_err: "collect_jobs t lps = Inl e \<Longrightarrow> e = AttributeError \<or> e = TypeError"
  by (induction lps arbitrary: e)
     (auto split: sum.splits dest: val_get_err iter_val_err select_jobs_err)

lemma extract_err:
  "extract_resource_metadata r li = Inl e \<Longrightarrow> e = AttributeError \<or> e = TypeError"
  by (auto simp: extract_resource_metadata_def Let_def split: sum.splits
      dest: iter_val_err collect_jobs_err)

lemma emit_err: "snd (emit a li ps) = Some e \<Longrightarrow> e = AttributeError \<or> e = TypeError"
proof (induction ps)
  case Nil
  then show ?case by simp
next
  case (Cons kr ps)
  obtain key r where kr: "kr = (key, r)" by (cases kr)
  show ?case
  proof (cases "extract_resource_metadata r li")
    case (Inl e')
    with Cons.prems have "e = e'" by (simp add: kr)
    with Inl show ?thesis by (auto dest: extract_err)
  next
    case (Inr m)
    with Cons.prems have "snd (emit a li ps) = Some e"
      by (simp add: kr case_prod_unfold Let_def)
    then show ?thesis by (rule Cons.IH)
  qed
qed

text \<open>
  C9. With the metadata of the first asset of the unit at hand, \<^verbatim>\<open>run\<close> raises the
  configuration error exactly when that metadata lacks the source or the pipeline, and
  when it does the pipeline has not been run and no record has been yielded.
\<close>

theorem run_configuration_error:
  assumes "metadata_by_key ctx = (k, md) # others"
  shows "(raised (run ctx kwargs) = Some ConfigurationError
            \<longleftrightarrow> meta_source md = None \<or> meta_pipeline md = None)
     \<and> (raised (run ctx kwargs) = Some ConfigurationError
            \<longrightarrow> pipeline_calls (run ctx kwargs) = [] \<and> yielded (run ctx kwargs) = [])"
proof (cases "meta_source md")
  case None
  then show ?thesis by (simp add: run_def assms)
next
  case (Some src)
  note src = this
  show ?thesis
  proof (cases "meta_pipeline md")
    case None
    then show ?thesis by (simp add: run_def assms src)
  next
    case (Some p)
    show ?thesis
    proof (cases "p (narrowed_source ctx src) kwargs")
      case (Inl msg)
      then show ?thesis by (simp add: run_def assms src Some)
    next
      case (Inr li)
      obtain evs err where em:
        "emit (is_asset_context ctx) li (execution_pairing ctx src) = (evs, err)"
        by (cases "emit (is_asset_context ctx) li (execution_pairing ctx src)")
      have "err \<noteq> Some ConfigurationError"
        using emit_err[of "is_asset_context ctx" li "execution_pairing ctx src" ConfigurationError] em
        by auto
      then show ?thesis by (simp add: run_def assms src Some Inr em)
    qed
  qed
qed

theorem run_configuration_error_witness:
  "metadata_by_key no_pipeline_context
     = (get_asset_key alpha, \<lparr>meta_source = Some example_source, meta_pipeline = None\<rparr>)
       # [(get_asset_key beta, \<lparr>meta_source = Some example_source, meta_pipeline = None\<rparr>)]
   \<and> raised (run no_pipeline_context []) = Some ConfigurationError
   \<and> pipeline_calls (run no_pipeline_context []) = []
   \<and> yielded (run no_pipeline_context []) = []"
proof -
  have h: "metadata_by_key no_pipeline_context
     = (get_asset_key alpha, \<lparr>meta_source = Some example_source, meta_pipeline = None\<rparr>)
       # [(get_asset_key beta, \<lparr>meta_source = Some example_source, meta_pipeline = None\<rparr>)]"
    by (simp add: no_pipeline_context_def)
  from run_configuration_error [OF h, of "[]"] h show ?thesis by simp
qed

end
